theory Spec2Isabelle
  imports Complex_Main
begin

section \<open>Python values and errors\<close>

text \<open>
  The two modules of the repository are \<^verbatim>\<open>stream_latency.py\<close> and
  \<^verbatim>\<open>apache_pinot_explanation.py\<close>.

  A Python \<^verbatim>\<open>float\<close> is modelled as a \<^typ>\<open>real\<close>, the way the data model of
  the specification types every clock reading ("real number"): subtraction, addition and
  division are exact. Rounding to binary64, infinities and NaN are outside this model, so
  a property is settled over it only where the rounding of a result does not decide it.
  A Python \<^verbatim>\<open>int\<close> is an \<^typ>\<open>int\<close>.

  Every exception the code can meet is a value: the result of a function that may raise
  is \<open>py_error + 'a\<close>, with \<open>Inl\<close> for the exception.
\<close>

datatype py_error =
    IndexError
  | ZeroDivisionError
  | RuntimeError string
  | APIError string

text \<open>\<^verbatim>\<open>xs[i]\<close>: a negative index counts from the end, an index out of range raises.\<close>

definition getitem :: "'a list \<Rightarrow> int \<Rightarrow> py_error + 'a" where
  "getitem xs i =
     (if 0 \<le> i \<and> i < int (length xs) then Inr (xs ! nat i)
      else if i < 0 \<and> - int (length xs) \<le> i then Inr (xs ! nat (int (length xs) + i))
      else Inl IndexError)"

text \<open>\<^verbatim>\<open>range(a, b)\<close>: the integers from \<open>a\<close> up to \<open>b - 1\<close>.\<close>

definition py_range :: "int \<Rightarrow> int \<Rightarrow> int list" where
  "py_range a b = [a..b - 1]"

text \<open>
  \<^verbatim>\<open>[f(i) for i in xs]\<close> where \<open>f\<close> may raise: the elements are computed from left to
  right and the first exception ends the comprehension.
\<close>

fun comprehension :: "('a \<Rightarrow> py_error + 'b) \<Rightarrow> 'a list \<Rightarrow> py_error + 'b list" where
  "comprehension f [] = Inr []"
| "comprehension f (x # xs) =
     (case f x of
        Inl e \<Rightarrow> Inl e
      | Inr y \<Rightarrow> (case comprehension f xs of Inl e \<Rightarrow> Inl e | Inr ys \<Rightarrow> Inr (y # ys)))"

text \<open>\<^verbatim>\<open>sum(xs)\<close>: starts at 0 and adds the elements from left to right.\<close>

definition py_sum :: "real list \<Rightarrow> real" where
  "py_sum xs = foldl (+) 0 xs"

text \<open>\<^verbatim>\<open>a / n\<close> for a float and an int: true division, which raises on a zero divisor.\<close>

definition truediv :: "real \<Rightarrow> int \<Rightarrow> py_error + real" where
  "truediv a n = (if n = 0 then Inl ZeroDivisionError else Inr (a / real_of_int n))"

section \<open>\<^verbatim>\<open>stream_latency.py\<close>: the latency metrics\<close>

record LatencyMetrics =
  ttft :: real
  tbt :: real
  total_latency :: real
  token_count :: int

text \<open>The element \<^verbatim>\<open>timestamps[i] - timestamps[i - 1]\<close> of the list of gaps.\<close>

definition gap :: "real list \<Rightarrow> int \<Rightarrow> py_error + real" where
  "gap timestamps i =
     (case getitem timestamps i of
        Inl e \<Rightarrow> Inl e
      | Inr a \<Rightarrow> (case getitem timestamps (i - 1) of Inl e \<Rightarrow> Inl e | Inr b \<Rightarrow> Inr (a - b)))"

text \<open>
  \<^verbatim>\<open>compute_metrics(start, timestamps, last)\<close>. The third parameter is written
  \<open>last'\<close>, since \<open>last\<close> is the list function of HOL. The three assignments to
  \<^verbatim>\<open>ttft\<close>, \<^verbatim>\<open>tbt\<close> and \<^verbatim>\<open>total_latency\<close> are made in the order of the source, and
  an exception in one of them is the result of the call.
\<close>

definition compute_ttft :: "real \<Rightarrow> real list \<Rightarrow> int \<Rightarrow> py_error + real" where
  "compute_ttft start timestamps n =
     (if n \<noteq> 0 then
        (case getitem timestamps 0 of Inl e \<Rightarrow> Inl e | Inr t \<Rightarrow> Inr (t - start))
      else Inr 0)"

definition compute_tbt :: "real list \<Rightarrow> int \<Rightarrow> py_error + real" where
  "compute_tbt timestamps n =
     (if n \<le> 1 then Inr 0
      else
        (case comprehension (gap timestamps) (py_range 1 n) of
           Inl e \<Rightarrow> Inl e
         | Inr gaps \<Rightarrow> truediv (py_sum gaps) (int (length gaps))))"

definition compute_metrics :: "real \<Rightarrow> real list \<Rightarrow> real \<Rightarrow> py_error + LatencyMetrics" where
  "compute_metrics start timestamps last' =
     (let n = int (length timestamps) in
      case compute_ttft start timestamps n of
        Inl e \<Rightarrow> Inl e
      | Inr ttft_v \<Rightarrow>
          (case compute_tbt timestamps n of
             Inl e \<Rightarrow> Inl e
           | Inr tbt_v \<Rightarrow>
               Inr \<lparr>ttft = ttft_v, tbt = tbt_v, total_latency = last' - start,
                     token_count = n\<rparr>))"

section \<open>\<^verbatim>\<open>stream_latency.py\<close>: the streaming collector\<close>

text \<open>
  What \<^verbatim>\<open>measure_latency\<close> reads of a streamed chunk: \<^verbatim>\<open>chunk.choices\<close>, the
  \<^verbatim>\<open>delta\<close> of the first choice (which may be \<^verbatim>\<open>None\<close>), and of the delta its
  \<^verbatim>\<open>content\<close> and \<^verbatim>\<open>tool_calls\<close> (each of which may be \<^verbatim>\<open>None\<close>). The chunk
  classes are of the client library; a tool call is never inspected.
\<close>

typedecl tool_call

record ChoiceDelta =
  content :: "string option"
  tool_calls :: "tool_call list option"

record Choice =
  delta :: "ChoiceDelta option"

record ChatCompletionChunk =
  choices :: "Choice list"

text \<open>
  The client library and the service behind it are not code of this repository. A call
  of \<^verbatim>\<open>client.chat.completions.create(..., stream=True)\<close> either raises or returns an
  iterator; the iterator yields chunks and may raise in between. The response is the
  list of what the iterator does until it is exhausted or raises. On a stream that never
  ends the call does not return; such a stream is not among these responses.
\<close>

datatype stream_item = Chunk ChatCompletionChunk | Raises string

datatype api_response = Refused string | Stream "stream_item list"

record request =
  api_key :: string
  model :: string
  user_content :: string

text \<open>
  The state around a call: the environment variables, the monotonic clock
  (\<open>clock w k\<close> is the reading of the \<open>k\<close>-th call of \<^verbatim>\<open>time.perf_counter()\<close>, and
  \<open>clock_reads\<close> counts the calls made), the service, and the requests sent so far.
\<close>

record world =
  environ :: "string \<rightharpoonup> string"
  clock :: "nat \<Rightarrow> real"
  clock_reads :: nat
  service :: "request \<Rightarrow> api_response"
  sent :: "request list"

text \<open>\<^verbatim>\<open>os.getenv(key)\<close> and \<^verbatim>\<open>os.getenv(key, default)\<close>.\<close>

definition getenv :: "world \<Rightarrow> string \<Rightarrow> string option" where
  "getenv w key = environ w key"

definition getenv_default :: "world \<Rightarrow> string \<Rightarrow> string \<Rightarrow> string" where
  "getenv_default w key dflt = (case environ w key of None \<Rightarrow> dflt | Some v \<Rightarrow> v)"

text \<open>\<^verbatim>\<open>time.perf_counter()\<close>: the next reading of the clock.\<close>

definition perf_counter :: "world \<Rightarrow> real \<times> world" where
  "perf_counter w = (clock w (clock_reads w), w\<lparr>clock_reads := Suc (clock_reads w)\<rparr>)"

text \<open>
  \<^verbatim>\<open>client.chat.completions.create(model=model, messages=[...], stream=True)\<close>: the
  request is sent and the service answers.
\<close>

definition create :: "request \<Rightarrow> world \<Rightarrow> api_response \<times> world" where
  "create r w = (service w r, w\<lparr>sent := sent w @ [r]\<rparr>)"

text \<open>
  The loop \<^verbatim>\<open>for chunk in stream\<close>, with the list \<^verbatim>\<open>timestamps\<close> it appends to.
  A chunk with no choices, or whose first choice has no delta, is skipped; a timestamp is
  taken when the delta has a non-empty content or at least one tool call.
\<close>

definition has_content :: "ChoiceDelta \<Rightarrow> bool" where
  "has_content d = (content d \<noteq> None \<and> content d \<noteq> Some [])"

definition has_token :: "ChoiceDelta \<Rightarrow> bool" where
  "has_token d = (case tool_calls d of None \<Rightarrow> False | Some tcs \<Rightarrow> length tcs > 0)"

fun iterate :: "stream_item list \<Rightarrow> real list \<Rightarrow> world \<Rightarrow> (py_error + real list) \<times> world" where
  "iterate [] timestamps w = (Inr timestamps, w)"
| "iterate (Raises msg # rest) timestamps w = (Inl (APIError msg), w)"
| "iterate (Chunk chunk # rest) timestamps w =
     (case choices chunk of
        [] \<Rightarrow> iterate rest timestamps w
      | choice # _ \<Rightarrow>
          (case delta choice of
             None \<Rightarrow> iterate rest timestamps w
           | Some d \<Rightarrow>
               if has_content d \<or> has_token d then
                 (case perf_counter w of (t, w') \<Rightarrow> iterate rest (timestamps @ [t]) w')
               else iterate rest timestamps w))"

text \<open>
  \<^verbatim>\<open>measure_latency(prompt)\<close>. \<^verbatim>\<open>not api_key\<close> holds of \<^verbatim>\<open>None\<close> and of the
  empty string. Constructing the client with a key sends nothing.
\<close>

definition measure_latency :: "string \<Rightarrow> world \<Rightarrow> (py_error + LatencyMetrics) \<times> world" where
  "measure_latency prompt w =
     (case getenv w ''OPENAI_API_KEY'' of
        None \<Rightarrow> (Inl (RuntimeError ''OPENAI_API_KEY environment variable is not set.''), w)
      | Some key \<Rightarrow>
          if key = [] then
            (Inl (RuntimeError ''OPENAI_API_KEY environment variable is not set.''), w)
          else
            (let mdl = getenv_default w ''OPENAI_MODEL'' ''gpt-4o-mini'' in
             case perf_counter w of (start, w1) \<Rightarrow>
               (case create \<lparr>api_key = key, model = mdl, user_content = prompt\<rparr> w1 of
                  (Refused msg, w2) \<Rightarrow> (Inl (APIError msg), w2)
                | (Stream items, w2) \<Rightarrow>
                    (case iterate items [] w2 of
                       (Inl e, w3) \<Rightarrow> (Inl e, w3)
                     | (Inr timestamps, w3) \<Rightarrow>
                         (case perf_counter w3 of (last', w4) \<Rightarrow>
                            (compute_metrics start timestamps last', w4))))))"

section \<open>\<^verbatim>\<open>apache_pinot_explanation.py\<close>\<close>

text \<open>
  \<^verbatim>\<open>explain_apache_pinot()\<close> takes no argument; what a call can depend on, and what it
  can change, is the state around it, so the model takes that state and returns it with
  the result. The body reads nothing of it and returns the literal of the source, which
  is written there in five adjacent pieces.
\<close>

definition explain_apache_pinot :: "world \<Rightarrow> string \<times> world" where
  "explain_apache_pinot w =
     (''Apache Pinot is a real-time distributed OLAP datastore built for '' @
      ''serving low-latency analytics on event streams and batch data. '' @
      ''It powers user-facing dashboards and anomaly detection by combining '' @
      ''columnar storage, smart indexing, and pre-aggregation to answer '' @
      ''queries quickly at scale.'', w)"

section \<open>What \<^verbatim>\<open>compute_metrics\<close> returns\<close>

subsection \<open>The Python operations inside their domain\<close>

lemma getitem_nat: "i < length xs \<Longrightarrow> getitem xs (int i) = Inr (xs ! i)"
  by (simp add: getitem_def)

lemma comprehension_map:
  "(\<And>x. x \<in> set xs \<Longrightarrow> f x = Inr (g x)) \<Longrightarrow> comprehension f xs = Inr (map g xs)"
  by (induction xs) simp_all

lemma foldl_plus: "foldl (+) a xs = a + sum_list (xs :: real list)"
  by (induction xs arbitrary: a) simp_all

lemma py_sum_sum_list: "py_sum xs = sum_list xs"
  by (simp add: py_sum_def foldl_plus)

lemma py_range_upt: "py_range 1 (int n) = map int [1..<n]"
proof (induction n)
  case 0
  show ?case by (simp add: py_range_def)
next
  case (Suc n)
  show ?case
  proof (cases "n = 0")
    case True
    then show ?thesis by (simp add: py_range_def)
  next
    case False
    then have "[1..int n] = [1..int n - 1] @ [int n]"
      by (simp add: upto_rec2)
    with Suc False show ?thesis
      by (simp add: py_range_def)
  qed
qed

subsection \<open>The list of gaps\<close>

lemma gap_nat:
  assumes "1 \<le> i" "i < length ts"
  shows "gap ts (int i) = Inr (ts ! i - ts ! (i - 1))"
proof -
  have prev: "int i - 1 = int (i - 1)" using assms by simp
  have "i - 1 < length ts" using assms by simp
  then have "getitem ts (int i - 1) = Inr (ts ! (i - 1))"
    unfolding prev by (rule getitem_nat)
  with assms show ?thesis
    by (simp add: gap_def getitem_nat)
qed

lemma gaps_eq:
  "comprehension (gap ts) (py_range 1 (int (length ts))) =
     Inr (map (\<lambda>i. ts ! i - ts ! (i - 1)) [1..<length ts])"
proof -
  have "comprehension (gap ts) (map int [1..<length ts]) =
          Inr (map (\<lambda>k. ts ! nat k - ts ! (nat k - 1)) (map int [1..<length ts]))"
    by (rule comprehension_map) (auto simp: gap_nat)
  then show ?thesis
    by (simp add: py_range_upt comp_def)
qed

subsection \<open>The result, field by field\<close>

lemma compute_tbt_eq:
  "compute_tbt ts (int (length ts)) =
     Inr (if length ts \<le> 1 then 0
          else (\<Sum>i = 1..<length ts. ts ! i - ts ! (i - 1)) / real (length ts - 1))"
  by (simp add: compute_tbt_def gaps_eq truediv_def py_sum_sum_list
      interv_sum_list_conv_sum_set_nat)

lemma compute_ttft_eq:
  "compute_ttft start ts (int (length ts)) = Inr (if ts = [] then 0 else ts ! 0 - start)"
  by (cases ts) (simp_all add: compute_ttft_def getitem_def)

lemma compute_metrics_eq:
  "compute_metrics start ts last' =
     Inr \<lparr>ttft = (if ts = [] then 0 else ts ! 0 - start),
          tbt = (if length ts \<le> 1 then 0
                 else (\<Sum>i = 1..<length ts. ts ! i - ts ! (i - 1)) / real (length ts - 1)),
          total_latency = last' - start,
          token_count = int (length ts)\<rparr>"
  unfolding compute_metrics_def Let_def compute_tbt_eq compute_ttft_eq
  by simp

text \<open>
  The example of the specification: start 0, tokens at 1, 3 and 6, end at 7. The gaps
  are 2 and 3.
\<close>

lemma compute_metrics_example:
  "compute_metrics 0 [1, 3, 6] 7 =
     Inr \<lparr>ttft = 1, tbt = 5 / 2, total_latency = 7, token_count = 3\<rparr>"
  by (simp add: compute_metrics_def compute_ttft_def compute_tbt_def getitem_def gap_def
      py_range_def upto.simps truediv_def py_sum_def)

lemma compute_metrics_empty:
  "compute_metrics start [] last' =
     Inr \<lparr>ttft = 0, tbt = 0, total_latency = last' - start, token_count = 0\<rparr>"
  by (simp add: compute_metrics_def compute_ttft_def compute_tbt_def)

text \<open>
  C1. For every start, end and list of timestamps, \<^verbatim>\<open>compute_metrics\<close> returns a
  value whose field \<open>tbt\<close> is 0 when the list has at most one element, and otherwise the
  arithmetic mean of the differences \<open>timestamps[i] - timestamps[i-1]\<close> for \<open>i\<close> from 1
  to the length minus 1: their sum divided by their number.
\<close>

theorem compute_metrics_tbt:
  "\<exists>m. compute_metrics start ts last' = Inr m \<and>
       tbt m = (if length ts \<le> 1 then 0
                else (\<Sum>i = 1..<length ts. ts ! i - ts ! (i - 1)) / real (length ts - 1))"
  by (simp add: compute_metrics_eq)

text \<open>
  C2. For every start, end and list of timestamps, \<^verbatim>\<open>compute_metrics\<close> returns a
  value whose field \<open>ttft\<close> is \<open>timestamps[0] - start\<close> when the list is not empty, and 0
  when it is empty.
\<close>

theorem compute_metrics_ttft:
  "\<exists>m. compute_metrics start ts last' = Inr m \<and>
       ttft m = (if ts = [] then 0 else ts ! 0 - start)"
  by (simp add: compute_metrics_eq)

text \<open>
  C3. For every start, end and list of timestamps, \<^verbatim>\<open>compute_metrics\<close> returns a
  value whose \<open>token_count\<close> is the length of the list and whose \<open>total_latency\<close> is the
  end minus the start.
\<close>

theorem compute_metrics_count_and_total:
  "\<exists>m. compute_metrics start ts last' = Inr m \<and>
       token_count m = int (length ts) \<and> total_latency m = last' - start"
  by (simp add: compute_metrics_eq)

text \<open>
  C4. \<^verbatim>\<open>compute_metrics\<close> raises on no input: every call returns a metrics value. The
  index 0 is read only of a non-empty list, the indices \<open>i\<close> and \<open>i - 1\<close> only for
  \<open>1 \<le> i < token_count\<close>, and the division is made only when there is more than one
  timestamp, where the number of gaps is not zero: the mean is never a division by zero.
\<close>

theorem compute_metrics_raises_nothing:
  "(\<exists>m. compute_metrics start ts last' = Inr m) \<and>
   compute_tbt ts (int (length ts)) \<noteq> Inl ZeroDivisionError"
  by (simp add: compute_metrics_eq compute_tbt_eq)

section \<open>Non-decreasing timestamps\<close>

lemma gaps_sum_nonneg:
  fixes ts :: "real list"
  assumes "sorted ts"
  shows "0 \<le> (\<Sum>i = 1..<length ts. ts ! i - ts ! (i - 1))"
proof (rule sum_nonneg)
  fix i assume "i \<in> {1..<length ts}"
  then have "i - 1 \<le> i" "i < length ts" by simp_all
  with assms have "ts ! (i - 1) \<le> ts ! i" by (rule sorted_nth_mono)
  then show "0 \<le> ts ! i - ts ! (i - 1)" by simp
qed

lemma mean_gap_nonneg:
  fixes ts :: "real list"
  assumes "sorted ts"
  shows "0 \<le> (if length ts \<le> 1 then 0
               else (\<Sum>i = 1..<length ts. ts ! i - ts ! (i - 1)) / real (length ts - 1))"
  using gaps_sum_nonneg [OF assms] by simp

lemma first_le_last:
  fixes ts :: "real list"
  assumes "sorted ts" "ts \<noteq> []"
  shows "ts ! 0 \<le> last ts"
proof -
  have "ts ! 0 \<le> ts ! (length ts - 1)"
    using assms by (intro sorted_nth_mono) simp_all
  with assms show ?thesis by (simp add: last_conv_nth)
qed

text \<open>
  C5, as it is stated: the constraints of the data model (timestamps non-decreasing, end
  at least start, end at least the last timestamp when there is one) are said to make
  all four fields non-negative. They do not bound the first timestamp from below by
  the start, and \<^verbatim>\<open>compute_metrics\<close> validates nothing: with start 5, the one timestamp
  1 and end 10 every constraint holds and \<open>ttft\<close> is \<open>1 - 5 = -4\<close>.
\<close>

theorem compute_metrics_negative_ttft:
  "sorted [1 :: real] \<and> (5 :: real) \<le> 10 \<and> last [1 :: real] \<le> 10 \<and>
   compute_metrics 5 [1] 10 =
     Inr \<lparr>ttft = - 4, tbt = 0, total_latency = 5, token_count = 1\<rparr> \<and>
   \<not> 0 \<le> ttft \<lparr>ttft = - 4, tbt = 0, total_latency = 5, token_count = 1\<rparr>"
  by (simp add: compute_metrics_def compute_ttft_def compute_tbt_def getitem_def)

text \<open>
  C5, amended: for every input that satisfies the constraints of the data model
  (timestamps non-decreasing and possibly empty, end at least start, end at least the
  last timestamp when there is one) and whose first timestamp, when there is one, is
  not before the start, the value returned by \<^verbatim>\<open>compute_metrics\<close> has \<open>ttft \<ge> 0\<close>,
  \<open>tbt \<ge> 0\<close>, \<open>total_latency \<ge> 0\<close> and a non-negative integer \<open>token_count\<close>.
\<close>

theorem compute_metrics_nonneg:
  assumes "sorted ts" and "start \<le> last'"
    and "ts \<noteq> [] \<Longrightarrow> last ts \<le> last'"
    and "ts \<noteq> [] \<Longrightarrow> start \<le> ts ! 0"
  shows "\<exists>m. compute_metrics start ts last' = Inr m \<and>
           0 \<le> ttft m \<and> 0 \<le> tbt m \<and> 0 \<le> total_latency m \<and> 0 \<le> token_count m"
  using assms(2,4) mean_gap_nonneg [OF assms(1)]
  unfolding compute_metrics_eq by simp

theorem compute_metrics_nonneg_witness:
  "sorted [2, 3, 5 :: real] \<and> (1 :: real) \<le> 8 \<and> last [2, 3, 5 :: real] \<le> 8 \<and>
   (1 :: real) \<le> [2, 3, 5] ! 0 \<and>
   (\<exists>m. compute_metrics 1 [2, 3, 5] 8 = Inr m \<and>
        0 \<le> ttft m \<and> 0 \<le> tbt m \<and> 0 \<le> total_latency m \<and> 0 \<le> token_count m)"
  using compute_metrics_nonneg [of "[2, 3, 5]" 1 8] by simp

text \<open>
  C6, as it is stated: for every start, end and list of timestamps, non-decreasing
  timestamps and an end that is at least the last of them are said to give \<open>tbt \<ge> 0\<close>
  and \<open>total_latency \<ge> ttft\<close>. The empty list is a valid input and has no last
  timestamp for the end to be compared with, so the premise holds of it for every start
  and end; \<^verbatim>\<open>compute_metrics\<close> compares nothing, and with start 5, no timestamp and
  end 1 it returns \<open>ttft = 0\<close> and \<open>total_latency = 1 - 5 = -4\<close>.
\<close>

theorem compute_metrics_empty_total_below_ttft:
  "sorted ([] :: real list) \<and> ([] :: real list) = [] \<and>
   compute_metrics 5 [] 1 =
     Inr \<lparr>ttft = 0, tbt = 0, total_latency = - 4, token_count = 0\<rparr> \<and>
   \<not> ttft \<lparr>ttft = 0, tbt = 0, total_latency = - 4, token_count = 0\<rparr>
       \<le> total_latency \<lparr>ttft = 0, tbt = 0, total_latency = - 4, token_count = 0\<rparr>"
  by (simp add: compute_metrics_def compute_ttft_def compute_tbt_def)

text \<open>
  C6, amended: for every start, end and list of timestamps, if the timestamps are
  non-decreasing, the end is at least the last of them when there is one, and the end is
  at least the start when there is none, then the value returned by
  \<^verbatim>\<open>compute_metrics\<close> has \<open>tbt \<ge> 0\<close> and \<open>total_latency \<ge> ttft\<close>.
\<close>

theorem compute_metrics_monotonic:
  assumes "sorted ts"
    and "ts \<noteq> [] \<Longrightarrow> last ts \<le> last'"
    and "ts = [] \<Longrightarrow> start \<le> last'"
  shows "\<exists>m. compute_metrics start ts last' = Inr m \<and>
           0 \<le> tbt m \<and> ttft m \<le> total_latency m"
proof (cases "ts = []")
  case True
  with assms(3) show ?thesis
    by (simp add: compute_metrics_empty)
next
  case False
  then have "ts ! 0 \<le> last'"
    using first_le_last [OF assms(1)] assms(2) by fastforce
  with False mean_gap_nonneg [OF assms(1)] show ?thesis
    unfolding compute_metrics_eq by simp
qed

theorem compute_metrics_monotonic_witness:
  "sorted [1, 3, 6 :: real] \<and> [1, 3, 6 :: real] \<noteq> [] \<and> last [1, 3, 6 :: real] \<le> 7 \<and>
   (\<exists>m. compute_metrics 0 [1, 3, 6] 7 = Inr m \<and> 0 \<le> tbt m \<and> ttft m \<le> total_latency m) \<and>
   sorted ([] :: real list) \<and> (1 :: real) \<le> 5 \<and>
   (\<exists>m. compute_metrics 1 [] 5 = Inr m \<and> 0 \<le> tbt m \<and> ttft m \<le> total_latency m)"
  using compute_metrics_monotonic [of "[1, 3, 6]" 7 0] compute_metrics_monotonic [of "[]" 5 1]
  by simp

subsection \<open>The sum of the gaps in exact arithmetic\<close>

text \<open>
  Over the reals the sum of the gaps telescopes to the last timestamp minus the first.
  The program computes on binary64 floats, where every difference and the sum are
  rounded, so that its \<open>tbt\<close> and the quotient of \<open>timestamps[n-1] - timestamps[0]\<close> by
  \<open>n - 1\<close> agree up to rounding only: for the timestamps 0.0, 0.2 and 0.9 the first is
  0.44999999999999996 and the second 0.45. An equality between the two floating-point
  results is decided by the rounding this model leaves out, and is stated of the exact
  sum alone.
\<close>

lemma gaps_telescope:
  fixes ts :: "real list"
  assumes "ts \<noteq> []"
  shows "(\<Sum>i = 1..<length ts. ts ! i - ts ! (i - 1)) = ts ! (length ts - 1) - ts ! 0"
proof -
  have "(\<Sum>i = 1..<length ts. ts ! i - ts ! (i - 1)) =
        (\<Sum>i = 0..<length ts - 1. ts ! Suc i - ts ! i)"
    by (rule sum.reindex_bij_witness [of _ Suc "\<lambda>i. i - 1"]) auto
  also have "\<dots> = ts ! (length ts - 1) - ts ! 0"
    by (simp add: sum_Suc_diff')
  finally show ?thesis .
qed

section \<open>What \<^verbatim>\<open>measure_latency\<close> raises\<close>

lemma compute_metrics_no_error: "compute_metrics start ts last' \<noteq> Inl e"
  by (simp add: compute_metrics_eq)

lemma iterate_error:
  "fst (iterate items ts w) = Inl e \<Longrightarrow> \<exists>msg. e = APIError msg"
  by (induction items ts w rule: iterate.induct)
     (auto split: list.splits option.splits prod.splits if_splits)

lemma measure_latency_falsy_key:
  assumes "environ w ''OPENAI_API_KEY'' = None \<or> environ w ''OPENAI_API_KEY'' = Some []"
  shows "measure_latency prompt w =
           (Inl (RuntimeError ''OPENAI_API_KEY environment variable is not set.''), w)"
  using assms by (auto simp: measure_latency_def getenv_def)

lemma measure_latency_error:
  assumes "fst (measure_latency prompt w) = Inl e"
  shows "(\<exists>msg. e = APIError msg) \<or>
         e = RuntimeError ''OPENAI_API_KEY environment variable is not set.'' \<and>
         (environ w ''OPENAI_API_KEY'' = None \<or> environ w ''OPENAI_API_KEY'' = Some [])"
proof (cases "environ w ''OPENAI_API_KEY'' = None \<or> environ w ''OPENAI_API_KEY'' = Some []")
  case True
  with assms show ?thesis by (simp add: measure_latency_falsy_key)
next
  case False
  then obtain key where key: "environ w ''OPENAI_API_KEY'' = Some key" "key \<noteq> []"
    by auto
  obtain start w1 where pc: "perf_counter w = (start, w1)"
    by (cases "perf_counter w")
  let ?r = "\<lparr>api_key = key, model = getenv_default w ''OPENAI_MODEL'' ''gpt-4o-mini'',
              user_content = prompt\<rparr>"
  obtain resp w2 where cr: "create ?r w1 = (resp, w2)"
    by (cases "create ?r w1")
  show ?thesis
  proof (cases resp)
    case (Refused msg)
    with assms key pc cr show ?thesis
      by (auto simp: measure_latency_def getenv_def)
  next
    case (Stream items)
    obtain res w3 where it: "iterate items [] w2 = (res, w3)"
      by (cases "iterate items [] w2")
    show ?thesis
    proof (cases res)
      case (Inl e')
      with assms key pc cr Stream it have "e = e'"
        by (simp add: measure_latency_def getenv_def)
      moreover from it Inl have "fst (iterate items [] w2) = Inl e'" by simp
      ultimately show ?thesis using iterate_error by blast
    next
      case (Inr timestamps)
      obtain l w4 where pc2: "perf_counter w3 = (l, w4)"
        by (cases "perf_counter w3")
      from assms key pc cr Stream it Inr pc2
      have "compute_metrics start timestamps l = Inl e"
        by (simp add: measure_latency_def getenv_def)
      then show ?thesis by (simp add: compute_metrics_no_error)
    qed
  qed
qed

text \<open>
  A run with a key: the clock reads 0, 1, 2, ... and the service streams five chunks, of
  which the second has an empty content and the third no choice. Three timestamps are
  taken, one request is sent and the clock is read five times.
\<close>

lemma measure_latency_example:
  "measure_latency ''hello''
     \<lparr>environ = [''OPENAI_API_KEY'' \<mapsto> ''k''], clock = real, clock_reads = 0,
        service = (\<lambda>r. Stream
          [Chunk \<lparr>choices = [\<lparr>delta = Some \<lparr>content = Some ''a'', tool_calls = None\<rparr>\<rparr>]\<rparr>,
           Chunk \<lparr>choices = [\<lparr>delta = Some \<lparr>content = Some [], tool_calls = None\<rparr>\<rparr>]\<rparr>,
           Chunk \<lparr>choices = []\<rparr>,
           Chunk \<lparr>choices = [\<lparr>delta = Some \<lparr>content = Some ''b'', tool_calls = None\<rparr>\<rparr>]\<rparr>,
           Chunk \<lparr>choices = [\<lparr>delta = Some \<lparr>content = Some ''c'', tool_calls = None\<rparr>\<rparr>]\<rparr>]),
        sent = []\<rparr> =
   (Inr \<lparr>ttft = 1, tbt = 1, total_latency = 4, token_count = 3\<rparr>,
     \<lparr>environ = [''OPENAI_API_KEY'' \<mapsto> ''k''], clock = real, clock_reads = 5,
        service = (\<lambda>r. Stream
          [Chunk \<lparr>choices = [\<lparr>delta = Some \<lparr>content = Some ''a'', tool_calls = None\<rparr>\<rparr>]\<rparr>,
           Chunk \<lparr>choices = [\<lparr>delta = Some \<lparr>content = Some [], tool_calls = None\<rparr>\<rparr>]\<rparr>,
           Chunk \<lparr>choices = []\<rparr>,
           Chunk \<lparr>choices = [\<lparr>delta = Some \<lparr>content = Some ''b'', tool_calls = None\<rparr>\<rparr>]\<rparr>,
           Chunk \<lparr>choices = [\<lparr>delta = Some \<lparr>content = Some ''c'', tool_calls = None\<rparr>\<rparr>]\<rparr>]),
        sent = [\<lparr>api_key = ''k'', model = ''gpt-4o-mini'', user_content = ''hello''\<rparr>]\<rparr>)"
  by (simp add: measure_latency_def getenv_def getenv_default_def perf_counter_def create_def
      has_content_def has_token_def compute_metrics_eq)

text \<open>
  C7. When the environment variable \<^verbatim>\<open>OPENAI_API_KEY\<close> is unset,
  \<^verbatim>\<open>measure_latency\<close> fails with the \<^verbatim>\<open>RuntimeError\<close> whose message is
  "OPENAI_API_KEY environment variable is not set.", and the state is the one before the
  call: no request was sent and the clock was not read. It is the only error the program
  raises itself: whenever \<^verbatim>\<open>measure_latency\<close> ends in an error, either the error comes
  from the client library (the call of \<^verbatim>\<open>create\<close> or the iteration of the stream), or it
  is this \<^verbatim>\<open>RuntimeError\<close> and the check of the key has failed.
\<close>

theorem measure_latency_unset_key:
  "(environ w ''OPENAI_API_KEY'' = None \<longrightarrow>
      measure_latency prompt w =
        (Inl (RuntimeError ''OPENAI_API_KEY environment variable is not set.''), w)) \<and>
   (\<forall>e. fst (measure_latency prompt w) = Inl e \<longrightarrow>
      (\<exists>msg. e = APIError msg) \<or>
      e = RuntimeError ''OPENAI_API_KEY environment variable is not set.'' \<and>
      (environ w ''OPENAI_API_KEY'' = None \<or> environ w ''OPENAI_API_KEY'' = Some []))"
  using measure_latency_falsy_key [of w prompt] measure_latency_error [of prompt w]
  by blast

theorem measure_latency_unset_key_witness:
  "environ \<lparr>environ = [''OPENAI_MODEL'' \<mapsto> ''gpt-4o''], clock = real, clock_reads = 0,
             service = (\<lambda>r. Stream []), sent = []\<rparr> ''OPENAI_API_KEY'' = None \<and>
   measure_latency ''hello''
       \<lparr>environ = [''OPENAI_MODEL'' \<mapsto> ''gpt-4o''], clock = real, clock_reads = 0,
          service = (\<lambda>r. Stream []), sent = []\<rparr> =
     (Inl (RuntimeError ''OPENAI_API_KEY environment variable is not set.''),
      \<lparr>environ = [''OPENAI_MODEL'' \<mapsto> ''gpt-4o''], clock = real, clock_reads = 0,
         service = (\<lambda>r. Stream []), sent = []\<rparr>) \<and>
   fst (measure_latency ''hello''
       \<lparr>environ = [''OPENAI_MODEL'' \<mapsto> ''gpt-4o''], clock = real, clock_reads = 0,
          service = (\<lambda>r. Stream []), sent = []\<rparr>) =
     Inl (RuntimeError ''OPENAI_API_KEY environment variable is not set.'')"
  using measure_latency_unset_key
    [of "\<lparr>environ = [''OPENAI_MODEL'' \<mapsto> ''gpt-4o''], clock = real, clock_reads = 0,
            service = (\<lambda>r. Stream []), sent = []\<rparr>" "''hello''"]
  by simp

text \<open>
  C10. When \<^verbatim>\<open>OPENAI_API_KEY\<close> is set to the empty string, \<^verbatim>\<open>measure_latency\<close>
  raises the same \<^verbatim>\<open>RuntimeError\<close>, with the same message and the state untouched, as
  it does in the same state with the variable removed.
\<close>

theorem measure_latency_empty_key:
  assumes "environ w ''OPENAI_API_KEY'' = Some []"
  shows "measure_latency prompt w =
           (Inl (RuntimeError ''OPENAI_API_KEY environment variable is not set.''), w) \<and>
         fst (measure_latency prompt w) =
           fst (measure_latency prompt
                  (w\<lparr>environ := (environ w)(''OPENAI_API_KEY'' := None)\<rparr>))"
  using assms by (simp add: measure_latency_falsy_key)

theorem measure_latency_empty_key_witness:
  "environ \<lparr>environ = [''OPENAI_API_KEY'' \<mapsto> []], clock = real, clock_reads = 0,
             service = (\<lambda>r. Stream []), sent = []\<rparr> ''OPENAI_API_KEY'' = Some [] \<and>
   fst (measure_latency ''hello''
       \<lparr>environ = [''OPENAI_API_KEY'' \<mapsto> []], clock = real, clock_reads = 0,
          service = (\<lambda>r. Stream []), sent = []\<rparr>) =
     Inl (RuntimeError ''OPENAI_API_KEY environment variable is not set.'') \<and>
   sent (snd (measure_latency ''hello''
       \<lparr>environ = [''OPENAI_API_KEY'' \<mapsto> []], clock = real, clock_reads = 0,
          service = (\<lambda>r. Stream []), sent = []\<rparr>)) = []"
  using measure_latency_empty_key
    [of "\<lparr>environ = [''OPENAI_API_KEY'' \<mapsto> []], clock = real, clock_reads = 0,
            service = (\<lambda>r. Stream []), sent = []\<rparr>" "''hello''"]
  by simp

section \<open>What \<^verbatim>\<open>explain_apache_pinot\<close> returns\<close>

text \<open>
  C8. \<^verbatim>\<open>explain_apache_pinot\<close> returns the same string in any two states, whatever
  the environment and whatever was called before; the string is not empty; and a call
  leaves the state as it was, so that the next call is in the same position.
\<close>

theorem explain_apache_pinot_constant:
  "fst (explain_apache_pinot w) = fst (explain_apache_pinot w') \<and>
   fst (explain_apache_pinot w) \<noteq> [] \<and>
   snd (explain_apache_pinot w) = w"
  by (simp add: explain_apache_pinot_def)

end
